theory Spec2Isabelle
  imports Main
begin

section \<open>The umcd protocol session (umcd_protocol.cpp)\<close>

text \<open>
  The source is the second document of \<^verbatim>\<open>src/src/game_events/handlers.hpp\<close>: the
  implementation of class \<^verbatim>\<open>umcd_protocol\<close>. Every member function is a callback
  of an asynchronous I/O operation. A member function is modelled as a function from the
  object's state to the list of effects it performs (log lines, asynchronous operations
  it starts, the action it executes) and the new state.
\<close>

subsection \<open>Data\<close>

text \<open>A \<^verbatim>\<open>config\<close>: attributes and named children.\<close>

datatype config = Config (attributes: "(string \<times> string) list") (children: "(string \<times> config) list")

definition empty_config :: config where
  "empty_config = Config [] []"

text \<open>A \<^verbatim>\<open>connection_ptr\<close> is a shared pointer: null or a connection.\<close>

type_synonym connection_ptr = "nat option"

text \<open>\<^verbatim>\<open>wml_request\<close>: the connection it came from and its metadata.\<close>

record wml_request =
  connection :: connection_ptr
  metadata :: config

definition wml_request :: "connection_ptr \<Rightarrow> wml_request" where
  "wml_request c = \<lparr>connection = c, metadata = empty_config\<rparr>"

datatype wml_reply = Wml_reply config

text \<open>
  The two exception classes the callbacks catch. \<^verbatim>\<open>std::exception\<close> carries
  \<^verbatim>\<open>what()\<close>; \<^verbatim>\<open>twml_exception\<close> carries \<^verbatim>\<open>user_message\<close> and
  \<^verbatim>\<open>dev_message\<close>.
\<close>

datatype exn = Std_exception string | Twml_exception (user_message: string) (dev_message: string)

text \<open>The error conditions of \<^verbatim>\<open>umcd_error.hpp\<close> that the source uses.\<close>

datatype umcd_error = Invalid_packet | Request_header_too_large

datatype severity = Debug | Info | Error

text \<open>What is inserted into a log stream with \<^verbatim>\<open><<\<close>.\<close>

datatype log_item = Text string | Number nat

text \<open>
  The member functions bound as completion handlers, and the buffers read into:
  \<^verbatim>\<open>boost::asio::buffer(raw_request_size)\<close> is the whole array, and
  \<^verbatim>\<open>boost::asio::buffer(&request_body[i], n)\<close> is the storage of the string from the
  character at position \<open>i\<close>, here \<open>Request_body i\<close>.
\<close>

datatype callback = Read_request_body | Dispatch_request | Complete_request

datatype buffer = Raw_request_size | Request_body nat

datatype action = Request_license_action | Request_umc_upload_action

datatype validator = Schema string

record request_info =
  validator :: validator
  action :: action

text \<open>
  The effects of a member function, in program order. \<open>Execute a es\<close> is the call
  \<^verbatim>\<open>request_info->action()->execute(shared_from_this())\<close>, with the effects \<open>es\<close>
  the action performed inside it. \<open>Async_read b n k\<close> reads \<open>n\<close> bytes into the
  buffer \<open>b\<close>. \<open>Undefined_behaviour\<close> is an access outside the storage of a member.
\<close>

datatype effect =
    Function_tracer connection_ptr string
  | Log severity connection_ptr "log_item list"
  | Async_read buffer nat callback
  | Async_write "string list" callback
  | Execute action "effect list"
  | Undefined_behaviour

text \<open>The members of \<^verbatim>\<open>umcd_protocol\<close>.\<close>

record protocol =
  server_config :: config
  action_factory :: "string \<rightharpoonup> request_info"
  client_connection :: connection_ptr
  raw_request_size :: string
  request_body :: string
  request :: wml_request
  reply :: wml_reply

text \<open>
  What the source uses and does not define, taken as parameters: the two constants of
  the class, \<^verbatim>\<open>boost::lexical_cast<std::size_t>\<close> (\<open>Inl w\<close>: it throws
  \<^verbatim>\<open>bad_lexical_cast\<close>, a \<^verbatim>\<open>std::exception\<close> with \<open>what() = w\<close>), the
  messages of error codes and error conditions, \<^verbatim>\<open>make_error_reply\<close>,
  \<^verbatim>\<open>wml_reply::to_buffers\<close>, \<^verbatim>\<open>peek_request_name\<close>, the parser
  \<^verbatim>\<open>::read\<close> with a validator (the exception it throws, if any, and what it has
  put into the config), \<^verbatim>\<open>what()\<close> of the exception for a kind name that the factory
  does not hold, and \<^verbatim>\<open>execute\<close> of an action on the protocol object (its
  effects, the exception it throws, if any, and the object as it leaves it).
  An \<^verbatim>\<open>error_code\<close> is its integer value: zero is success.
\<close>

type_synonym error_code = int

record env =
  REQUEST_HEADER_MAX_SIZE :: nat
  REQUEST_HEADER_SIZE_FIELD_LENGTH :: nat
  lexical_cast :: "string \<Rightarrow> string + nat"
  error_code_message :: "error_code \<Rightarrow> string"
  error_condition_message :: "umcd_error \<Rightarrow> string"
  make_error_reply :: "string \<Rightarrow> wml_reply"
  to_buffers :: "wml_reply \<Rightarrow> string list"
  peek_request_name :: "string \<Rightarrow> exn + string"
  read :: "string \<Rightarrow> validator \<Rightarrow> exn option \<times> config"
  unknown_product_what :: "string \<Rightarrow> string"
  execute :: "action \<Rightarrow> protocol \<Rightarrow> effect list \<times> exn option \<times> protocol"

subsection \<open>Construction\<close>

text \<open>
  Modelled from the spec: \<^verbatim>\<open>register_request_info\<close> is a member template declared in
  a header that is not in the source. It registers, under the kind name, a descriptor of
  the validator schema of that kind and of the action.
\<close>

definition register_request_info :: "action \<Rightarrow> string \<Rightarrow> protocol \<Rightarrow> protocol" where
  "register_request_info a request_name p =
     p\<lparr>action_factory := (action_factory p)(request_name \<mapsto> \<lparr>validator = Schema request_name, action = a\<rparr>)\<rparr>"

text \<open>
  Modelled from the spec: the factory's \<^verbatim>\<open>make_product\<close> is not in the source.
  Resolution is an exact match on the kind name; there is no default, and an unresolved
  kind is an error that reaches the client as an invalid packet: an exception of class
  \<^verbatim>\<open>std::exception\<close>.
\<close>

definition make_product :: "env \<Rightarrow> (string \<rightharpoonup> request_info) \<Rightarrow> string \<Rightarrow> exn + request_info" where
  "make_product env factory request_name =
     (case factory request_name of
        None \<Rightarrow> Inl (Std_exception (unknown_product_what env request_name))
      | Some info \<Rightarrow> Inr info)"

text \<open>
  The members a constructor does not mention are default-constructed: a null connection,
  an empty body, an empty request and reply. \<^verbatim>\<open>raw_request_size\<close> is an array of
  \<^verbatim>\<open>char\<close> and is left uninitialised: \<open>junk\<close> is what the memory holds.
\<close>

definition default_members :: "config \<Rightarrow> (string \<rightharpoonup> request_info) \<Rightarrow> string \<Rightarrow> protocol" where
  "default_members cfg factory junk =
     \<lparr>server_config = cfg, action_factory = factory, client_connection = None,
      raw_request_size = junk, request_body = [],
      request = wml_request None, reply = Wml_reply empty_config\<rparr>"

definition umcd_protocol :: "config \<Rightarrow> string \<Rightarrow> protocol" where
  "umcd_protocol cfg junk =
     register_request_info Request_umc_upload_action ''request_umc_upload''
       (register_request_info Request_license_action ''request_license''
          (default_members cfg Map.empty junk))"

definition umcd_protocol_copy :: "protocol \<Rightarrow> string \<Rightarrow> protocol" where
  "umcd_protocol_copy protocol junk =
     default_members (server_config protocol) (action_factory protocol) junk"

definition get_reply :: "protocol \<Rightarrow> wml_reply" where
  "get_reply p = reply p"

definition get_metadata :: "protocol \<Rightarrow> config" where
  "get_metadata p = metadata (request p)"

subsection \<open>Sending\<close>

definition complete_request :: "env \<Rightarrow> error_code \<Rightarrow> protocol \<Rightarrow> effect list \<times> protocol" where
  "complete_request env error p =
     (Function_tracer (client_connection p) ''complete_request'' #
      (if error \<noteq> 0
       then [Log Info (client_connection p)
               [Text '' -- unable to send data to the client ('', Text (error_code_message env error),
                Text ''). Connection dropped.'']]
       else []),
      p)"

definition async_send_reply :: "env \<Rightarrow> protocol \<Rightarrow> effect list \<times> protocol" where
  "async_send_reply env p =
     ([Function_tracer (client_connection p) ''async_send_reply'',
       Async_write (to_buffers env (reply p)) Complete_request],
      p)"

definition async_send_error :: "env \<Rightarrow> umcd_error \<Rightarrow> protocol \<Rightarrow> effect list \<times> protocol" where
  "async_send_error env error p =
     async_send_reply env (p\<lparr>reply := make_error_reply env (error_condition_message env error)\<rparr>)"

text \<open>The two overloads of \<^verbatim>\<open>async_send_invalid_packet\<close>, chosen by the exception's class.\<close>

fun async_send_invalid_packet :: "env \<Rightarrow> string \<Rightarrow> exn \<Rightarrow> protocol \<Rightarrow> effect list \<times> protocol" where
  "async_send_invalid_packet env where (Std_exception what) p =
     (let (es, p') = async_send_error env Invalid_packet p
      in (Log Error (client_connection p)
            [Text '' -- invalid request at '', Text where, Text '' ('', Text what, Text '')''] # es,
          p'))"
| "async_send_invalid_packet env where (Twml_exception user_msg dev_msg) p =
     (let (es, p') = async_send_error env Invalid_packet p
      in (Log Error (client_connection p)
            [Text '' -- invalid request at '', Text where, Text '' (user message='', Text user_msg,
             Text '' ; dev message='', Text dev_msg, Text '')''] # es,
          p'))"

subsection \<open>The completion handlers\<close>

text \<open>\<^verbatim>\<open>std::string::resize\<close>: truncates, or pads with the null character.\<close>

definition resize :: "nat \<Rightarrow> string \<Rightarrow> string" where
  "resize n s = take n s @ replicate (n - length s) (CHR 0x00)"

text \<open>
  \<^verbatim>\<open>std::string::operator[]\<close> takes a position up to \<^verbatim>\<open>size()\<close>: the result refers
  to the character at that position, and at \<^verbatim>\<open>size()\<close> to the null character that
  ends the storage, which is not to be written. A position beyond \<^verbatim>\<open>size()\<close> has
  undefined behaviour: \<open>None\<close>. (This is the operator since C++11; the repository's build
  script \<^verbatim>\<open>utils/travis/steps/script.sh\<close> builds with the Visual Studio toolset v141
  and a standard chosen by \<^verbatim>\<open>CXXSTD\<close>.)
\<close>

definition subscript :: "string \<Rightarrow> nat \<Rightarrow> nat option" where
  "subscript s pos = (if pos \<le> length s then Some pos else None)"

definition read_request_body :: "env \<Rightarrow> error_code \<Rightarrow> protocol \<Rightarrow> effect list \<times> protocol" where
  "read_request_body env error p =
     (let tracer = Function_tracer (client_connection p) ''read_request_body'' in
      if error = 0 then
        (case lexical_cast env (raw_request_size p) of
           Inl what \<Rightarrow>
             (let (es, p') = async_send_invalid_packet env ''read_request_body'' (Std_exception what) p
              in (tracer # es, p'))
         | Inr request_size \<Rightarrow>
             (let size_log = Log Debug (client_connection p)
                               [Text '' -- Request of size: '', Number request_size] in
              if request_size > REQUEST_HEADER_MAX_SIZE env then
                (let (es, p') = async_send_error env Request_header_too_large p
                 in (tracer # size_log # es, p'))
              else
                (let p' = p\<lparr>request_body := resize request_size (request_body p)\<rparr>
                 in case subscript (request_body p') 0 of
                      None \<Rightarrow> ([tracer, size_log, Undefined_behaviour], p')
                    | Some first \<Rightarrow>
                        ([tracer, size_log,
                          Async_read (Request_body first) (length (request_body p')) Dispatch_request],
                         p'))))
      else ([tracer], p))"

definition dispatch_request :: "env \<Rightarrow> error_code \<Rightarrow> protocol \<Rightarrow> effect list \<times> protocol" where
  "dispatch_request env err p =
     (let tracer = Function_tracer (client_connection p) ''dispatch_request'' in
      if err = 0 then
        (case peek_request_name env (request_body p) of
           Inl e \<Rightarrow>
             (let (es, p') = async_send_invalid_packet env ''dispatch_request'' e p
              in (tracer # es, p'))
         | Inr request_name \<Rightarrow>
             (let name_log = Log Info (client_connection p) [Text '' -- request: '', Text request_name] in
              case make_product env (action_factory p) request_name of
                Inl e \<Rightarrow>
                  (let (es, p') = async_send_invalid_packet env ''dispatch_request'' e p
                   in (tracer # name_log # es, p'))
              | Inr info \<Rightarrow>
                  (let body_log = Log Info (client_connection p)
                                    [Text ('' -- request:'' @ [CHR 0x0A]), Text (request_body p)];
                       (thrown, cfg) = read env (request_body p) (validator info);
                       p1 = p\<lparr>request := (wml_request (client_connection p))\<lparr>metadata := cfg\<rparr>\<rparr>
                   in case thrown of
                        Some e \<Rightarrow>
                          (let (es, p') = async_send_invalid_packet env ''dispatch_request'' e p1
                           in (tracer # name_log # body_log # es, p'))
                      | None \<Rightarrow>
                          (let valid_log = Log Debug (client_connection p) [Text '' -- request validated.''];
                               (hs, raised, p2) = execute env (action info) p1
                           in case raised of
                                None \<Rightarrow>
                                  ([tracer, name_log, body_log, valid_log, Execute (action info) hs], p2)
                              | Some e \<Rightarrow>
                                  (let (es, p') = async_send_invalid_packet env ''dispatch_request'' e p2
                                   in (tracer # name_log # body_log # valid_log #
                                       Execute (action info) hs # es, p'))))))
      else ([tracer], p))"

definition handle_request :: "env \<Rightarrow> connection_ptr \<Rightarrow> protocol \<Rightarrow> effect list \<times> protocol" where
  "handle_request env client p =
     (let p' = p\<lparr>client_connection := client\<rparr>
      in ([Function_tracer (client_connection p') ''handle_request'',
           Async_read Raw_request_size (length (raw_request_size p')) Read_request_body],
          p'))"

text \<open>
  The object as \<^verbatim>\<open>dispatch_request\<close> leaves it after \<^verbatim>\<open>::read\<close>: a new request of
  this connection, holding the metadata that was read.
\<close>

definition validated :: "protocol \<Rightarrow> config \<Rightarrow> protocol" where
  "validated p cfg = p\<lparr>request := (wml_request (client_connection p))\<lparr>metadata := cfg\<rparr>\<rparr>"

subsection \<open>A session: the chain of completion handlers\<close>

text \<open>
  The asynchronous operations among the effects, those an action started included.
\<close>

fun io_operations :: "effect \<Rightarrow> effect list" where
  "io_operations (Async_read b n k) = [Async_read b n k]"
| "io_operations (Async_write bs k) = [Async_write bs k]"
| "io_operations (Execute a es) = concat (map io_operations es)"
| "io_operations (Function_tracer c f) = []"
| "io_operations (Log s c items) = []"
| "io_operations Undefined_behaviour = []"

definition started :: "effect list \<Rightarrow> effect list" where
  "started es = concat (map io_operations es)"

text \<open>The actions a member function executed itself.\<close>

fun executed :: "effect list \<Rightarrow> action list" where
  "executed [] = []"
| "executed (Execute a es # rest) = a # executed rest"
| "executed (e # rest) = executed rest"

text \<open>The lines a member function wrote to the log.\<close>

fun logged :: "effect list \<Rightarrow> (severity \<times> log_item list) list" where
  "logged [] = []"
| "logged (Log sev c items # rest) = (sev, items) # logged rest"
| "logged (e # rest) = logged rest"

text \<open>
  An operation completes with an error code and the bytes transferred. A read of \<open>n\<close>
  bytes from position \<open>first\<close> of a storage puts at most \<open>n\<close> of the bytes there; when
  the \<open>n\<close> bytes from \<open>first\<close> do not lie within the storage the read is an access
  outside it: \<open>None\<close>. Then the bound member function runs.
\<close>

datatype completion = Completion error_code string

definition store :: "nat \<Rightarrow> nat \<Rightarrow> string \<Rightarrow> string \<Rightarrow> string option" where
  "store first n bytes storage =
     (if first + n \<le> length storage
      then (let d = take n bytes
            in Some (take first storage @ d @ drop (first + length d) storage))
      else None)"

fun deliver :: "effect \<Rightarrow> string \<Rightarrow> protocol \<Rightarrow> protocol option" where
  "deliver (Async_read Raw_request_size n k) bytes p =
     map_option (\<lambda>b. p\<lparr>raw_request_size := b\<rparr>) (store 0 n bytes (raw_request_size p))"
| "deliver (Async_read (Request_body first) n k) bytes p =
     map_option (\<lambda>b. p\<lparr>request_body := b\<rparr>) (store first n bytes (request_body p))"
| "deliver e bytes p = Some p"

fun callback_of :: "effect \<Rightarrow> callback option" where
  "callback_of (Async_read b n k) = Some k"
| "callback_of (Async_write bs k) = Some k"
| "callback_of e = None"

fun fire :: "env \<Rightarrow> callback \<Rightarrow> error_code \<Rightarrow> protocol \<Rightarrow> effect list \<times> protocol" where
  "fire env Read_request_body ec p = read_request_body env ec p"
| "fire env Dispatch_request ec p = dispatch_request env ec p"
| "fire env Complete_request ec p = complete_request env ec p"

datatype session_event = Started effect | Fired callback

record session =
  object :: protocol
  pending :: "effect list"
  history :: "session_event list"
  performed :: "effect list"

definition accept :: "env \<Rightarrow> connection_ptr \<Rightarrow> protocol \<Rightarrow> session" where
  "accept env client p =
     (let (es, p') = handle_request env client p
      in \<lparr>object = p', pending = started es, history = map Started (started es), performed = es\<rparr>)"

definition complete :: "env \<Rightarrow> completion \<Rightarrow> session \<Rightarrow> session" where
  "complete env c s =
     (case c of Completion ec bytes \<Rightarrow>
        (case pending s of
           [] \<Rightarrow> s
         | operation # rest \<Rightarrow>
             (case callback_of operation of
                None \<Rightarrow> s\<lparr>pending := rest\<rparr>
              | Some k \<Rightarrow>
                  (case deliver operation bytes (object s) of
                     None \<Rightarrow> s\<lparr>pending := rest, performed := performed s @ [Undefined_behaviour]\<rparr>
                   | Some q \<Rightarrow>
                       (let (es, p') = fire env k ec q
                        in \<lparr>object = p', pending = rest @ started es,
                            history = history s @ Fired k # map Started (started es),
                            performed = performed s @ es\<rparr>)))))"

definition run :: "env \<Rightarrow> completion list \<Rightarrow> session \<Rightarrow> session" where
  "run env cs s = foldl (\<lambda>s c. complete env c s) s cs"






definition keeps_registry :: "env \<Rightarrow> bool" where
  "keeps_registry env =
     (\<forall>a p. case execute env a p of
              (es, raised, p') \<Rightarrow>
                action_factory p' = action_factory p \<and> server_config p' = server_config p)"

subsection \<open>A sample environment\<close>

text \<open>
  An instance of the parameters, to run the model on concrete requests: a header of ten
  characters, bodies of at most 1000000 bytes, a header parser that accepts decimal
  digits only and values below \<open>2 ^ 64\<close>, kind names in square brackets, and actions
  that set the reply and send it.
\<close>

definition digit_of :: "char \<Rightarrow> nat option" where
  "digit_of c = (let k = (of_char c :: nat) in if 48 \<le> k \<and> k \<le> 57 then Some (k - 48) else None)"

fun decimal :: "nat \<Rightarrow> string \<Rightarrow> nat option" where
  "decimal acc [] = Some acc"
| "decimal acc (c # cs) = (case digit_of c of None \<Rightarrow> None | Some d \<Rightarrow> decimal (10 * acc + d) cs)"

definition sample_lexical_cast :: "string \<Rightarrow> string + nat" where
  "sample_lexical_cast s =
     (if s = [] then Inl ''bad lexical cast''
      else case decimal 0 s of
             None \<Rightarrow> Inl ''bad lexical cast''
           | Some n \<Rightarrow> if n < 2 ^ 64 then Inr n else Inl ''bad lexical cast'')"

definition sample_error_condition_message :: "umcd_error \<Rightarrow> string" where
  "sample_error_condition_message e =
     (case e of Invalid_packet \<Rightarrow> ''The packet is invalid.''
      | Request_header_too_large \<Rightarrow> ''The request header is too large.'')"

definition sample_make_error_reply :: "string \<Rightarrow> wml_reply" where
  "sample_make_error_reply msg = Wml_reply (Config [] [(''error'', Config [(''message'', msg)] [])])"

fun write_config :: "config \<Rightarrow> string" where
  "write_config (Config attrs kids) =
     concat (map (\<lambda>kv. fst kv @ ''='' @ snd kv @ [CHR 0x0A]) attrs) @
     concat (map (\<lambda>kc. ''['' @ fst kc @ '']'' @ write_config (snd kc) @ ''[/'' @ fst kc @ '']'') kids)"

definition sample_to_buffers :: "wml_reply \<Rightarrow> string list" where
  "sample_to_buffers r = (case r of Wml_reply c \<Rightarrow> [write_config c])"

definition sample_peek_request_name :: "string \<Rightarrow> exn + string" where
  "sample_peek_request_name body =
     (case body of
        [] \<Rightarrow> Inl (Std_exception ''no request name'')
      | c # rest \<Rightarrow>
          if c = CHR ''['' \<and> CHR '']'' \<in> set rest
          then Inr (takeWhile (\<lambda>x. x \<noteq> CHR '']'') rest)
          else Inl (Std_exception ''no request name''))"

definition sample_read :: "string \<Rightarrow> validator \<Rightarrow> exn option \<times> config" where
  "sample_read body v =
     (case v of Schema kind \<Rightarrow>
        if body = ''['' @ kind @ ''][/'' @ kind @ '']''
        then (None, Config [] [(kind, empty_config)])
        else (Some (Twml_exception (''Invalid '' @ kind @ ''.'') (''schema '' @ kind @ '' rejects '' @ body)),
              empty_config))"

definition sample_execute :: "action \<Rightarrow> protocol \<Rightarrow> effect list \<times> exn option \<times> protocol" where
  "sample_execute a p =
     (let r = Wml_reply (Config [(''status'', ''ok'')] []);
          p' = p\<lparr>reply := r\<rparr>
      in ([Function_tracer (client_connection p') ''async_send_reply'',
           Async_write (sample_to_buffers r) Complete_request],
          None, p'))"

definition sample_env :: env where
  "sample_env =
     \<lparr>REQUEST_HEADER_MAX_SIZE = 1000000,
      REQUEST_HEADER_SIZE_FIELD_LENGTH = 10,
      lexical_cast = sample_lexical_cast,
      error_code_message = (\<lambda>ec. ''I/O error''),
      error_condition_message = sample_error_condition_message,
      make_error_reply = sample_make_error_reply,
      to_buffers = sample_to_buffers,
      peek_request_name = sample_peek_request_name,
      read = sample_read,
      unknown_product_what = (\<lambda>kind. ''unknown product '' @ kind),
      execute = sample_execute\<rparr>"

definition sample_protocol :: protocol where
  "sample_protocol = umcd_protocol empty_config ''??????????''"

text \<open>The sample object of connection 1, with a header and a body read into its buffers.\<close>

definition sample_connected :: "string \<Rightarrow> string \<Rightarrow> protocol" where
  "sample_connected header body =
     sample_protocol\<lparr>client_connection := Some 1, raw_request_size := header, request_body := body\<rparr>"



section \<open>Properties\<close>

subsection \<open>What each member function starts\<close>

declare async_send_invalid_packet.simps [simp del]


lemma started_async_send_error:
  "started (fst (async_send_error env c p)) =
     [Async_write (to_buffers env (make_error_reply env (error_condition_message env c))) Complete_request]"
  by (simp add: async_send_error_def async_send_reply_def started_def)

lemma async_send_error_eq:
  "async_send_error env c p =
     ([Function_tracer (client_connection p) ''async_send_reply'',
       Async_write (to_buffers env (make_error_reply env (error_condition_message env c))) Complete_request],
      p\<lparr>reply := make_error_reply env (error_condition_message env c)\<rparr>)"
  by (simp add: async_send_error_def async_send_reply_def)

lemma started_invalid_packet:
  "started (fst (async_send_invalid_packet env w e p)) =
     [Async_write (to_buffers env (make_error_reply env (error_condition_message env Invalid_packet))) Complete_request]"
  by (cases e) (simp_all add: async_send_invalid_packet.simps async_send_error_eq started_def)

lemma executed_invalid_packet: "executed (fst (async_send_invalid_packet env w e p)) = []"
  by (cases e) (simp_all add: async_send_invalid_packet.simps async_send_error_eq)

lemma started_simps [simp]:
  "started [] = []"
  "started (Function_tracer c f # es) = started es"
  "started (Log sev c items # es) = started es"
  "started (Async_read b n k # es) = Async_read b n k # started es"
  "started (Async_write bs k # es) = Async_write bs k # started es"
  "started (Execute a hs # es) = started hs @ started es"
  "started (Undefined_behaviour # es) = started es"
  "started (es @ es') = started es @ started es'"
  by (simp_all add: started_def)


subsection \<open>The paths through \<^verbatim>\<open>dispatch_request\<close>\<close>

lemma dispatch_failed_read:
  "ec \<noteq> 0 \<Longrightarrow> dispatch_request env ec p = ([Function_tracer (client_connection p) ''dispatch_request''], p)"
  by (simp add: dispatch_request_def)

lemma dispatch_no_name:
  "peek_request_name env (request_body p) = Inl e \<Longrightarrow>
   dispatch_request env 0 p =
     (Function_tracer (client_connection p) ''dispatch_request'' #
        fst (async_send_invalid_packet env ''dispatch_request'' e p),
      snd (async_send_invalid_packet env ''dispatch_request'' e p))"
  by (simp add: dispatch_request_def case_prod_beta)

lemma dispatch_unknown:
  "peek_request_name env (request_body p) = Inr name \<Longrightarrow> action_factory p name = None \<Longrightarrow>
   dispatch_request env 0 p =
     (Function_tracer (client_connection p) ''dispatch_request'' #
      Log Info (client_connection p) [Text '' -- request: '', Text name] #
        fst (async_send_invalid_packet env ''dispatch_request'' (Std_exception (unknown_product_what env name)) p),
      snd (async_send_invalid_packet env ''dispatch_request'' (Std_exception (unknown_product_what env name)) p))"
  by (simp add: dispatch_request_def make_product_def case_prod_beta)

lemma dispatch_invalid:
  "peek_request_name env (request_body p) = Inr name \<Longrightarrow> action_factory p name = Some info \<Longrightarrow>
   read env (request_body p) (validator info) = (Some e, cfg) \<Longrightarrow>
   dispatch_request env 0 p =
     (Function_tracer (client_connection p) ''dispatch_request'' #
      Log Info (client_connection p) [Text '' -- request: '', Text name] #
      Log Info (client_connection p) [Text ('' -- request:'' @ [CHR 0x0A]), Text (request_body p)] #
        fst (async_send_invalid_packet env ''dispatch_request'' e (validated p cfg)),
      snd (async_send_invalid_packet env ''dispatch_request'' e (validated p cfg)))"
  by (simp add: dispatch_request_def make_product_def case_prod_beta validated_def wml_request_def Let_def
     )

lemma dispatch_valid:
  "peek_request_name env (request_body p) = Inr name \<Longrightarrow> action_factory p name = Some info \<Longrightarrow>
   read env (request_body p) (validator info) = (None, cfg) \<Longrightarrow>
   execute env (action info) (validated p cfg) = (hs, raised, p2) \<Longrightarrow>
   dispatch_request env 0 p =
     ([Function_tracer (client_connection p) ''dispatch_request'',
       Log Info (client_connection p) [Text '' -- request: '', Text name],
       Log Info (client_connection p) [Text ('' -- request:'' @ [CHR 0x0A]), Text (request_body p)],
       Log Debug (client_connection p) [Text '' -- request validated.''],
       Execute (action info) hs] @
      (case raised of None \<Rightarrow> []
       | Some e \<Rightarrow> fst (async_send_invalid_packet env ''dispatch_request'' e p2)),
      (case raised of None \<Rightarrow> p2
       | Some e \<Rightarrow> snd (async_send_invalid_packet env ''dispatch_request'' e p2)))"
  by (simp add: dispatch_request_def make_product_def case_prod_beta validated_def wml_request_def Let_def
      split: option.split)

lemma dispatch_effects:
  "fst (dispatch_request env 0 p) =
     Function_tracer (client_connection p) ''dispatch_request'' #
     (case peek_request_name env (request_body p) of
        Inl e \<Rightarrow> fst (async_send_invalid_packet env ''dispatch_request'' e p)
      | Inr name \<Rightarrow>
          Log Info (client_connection p) [Text '' -- request: '', Text name] #
          (case action_factory p name of
             None \<Rightarrow>
               fst (async_send_invalid_packet env ''dispatch_request''
                      (Std_exception (unknown_product_what env name)) p)
           | Some info \<Rightarrow>
               Log Info (client_connection p)
                 [Text ('' -- request:'' @ [CHR 0x0A]), Text (request_body p)] #
               (case fst (read env (request_body p) (validator info)) of
                  Some e \<Rightarrow>
                    fst (async_send_invalid_packet env ''dispatch_request'' e
                           (validated p (snd (read env (request_body p) (validator info)))))
                | None \<Rightarrow>
                    Log Debug (client_connection p) [Text '' -- request validated.''] #
                    Execute (action info)
                      (fst (execute env (action info)
                              (validated p (snd (read env (request_body p) (validator info)))))) #
                    (case fst (snd (execute env (action info)
                                      (validated p (snd (read env (request_body p) (validator info)))))) of
                       None \<Rightarrow> []
                     | Some e \<Rightarrow>
                         fst (async_send_invalid_packet env ''dispatch_request'' e
                                (snd (snd (execute env (action info)
                                             (validated p
                                                (snd (read env (request_body p) (validator info))))))))))))"
  by (simp add: dispatch_request_def make_product_def Let_def case_prod_beta validated_def
      wml_request_def split: sum.split option.split)

lemma dispatch_cases:
  obtains (failed) "ec \<noteq> 0"
  | (no_name) e where "ec = 0" "peek_request_name env (request_body p) = Inl e"
  | (unknown) name where "ec = 0" "peek_request_name env (request_body p) = Inr name"
      "action_factory p name = None"
  | (invalid) name info e cfg where "ec = 0" "peek_request_name env (request_body p) = Inr name"
      "action_factory p name = Some info" "read env (request_body p) (validator info) = (Some e, cfg)"
  | (valid) name info cfg hs raised p2 where "ec = 0" "peek_request_name env (request_body p) = Inr name"
      "action_factory p name = Some info" "read env (request_body p) (validator info) = (None, cfg)"
      "execute env (action info) (validated p cfg) = (hs, raised, p2)"
proof (cases "ec = 0")
  case False
  then show ?thesis by (rule failed)
next
  case zero: True
  show ?thesis
  proof (cases "peek_request_name env (request_body p)")
    case (Inl e)
    with zero show ?thesis by (rule no_name)
  next
    case (Inr name)
    show ?thesis
    proof (cases "action_factory p name")
      case None
      with zero Inr show ?thesis by (rule unknown)
    next
      case (Some info)
      obtain thrown cfg where rd: "read env (request_body p) (validator info) = (thrown, cfg)"
        by (cases "read env (request_body p) (validator info)")
      show ?thesis
      proof (cases thrown)
        case None
        obtain hs raised p2 where "execute env (action info) (validated p cfg) = (hs, raised, p2)"
          by (cases "execute env (action info) (validated p cfg)")
        with zero Inr Some rd None show ?thesis by (auto intro: valid)
      next
        case (Some e)
        with zero Inr \<open>action_factory p name = Some info\<close> rd show ?thesis by (auto intro: invalid)
      qed
    qed
  qed
qed


lemma executed_only_when_valid:
  assumes "executed (fst (dispatch_request env ec q)) \<noteq> []"
  shows "ec = 0 \<and> (\<exists>name info cfg. peek_request_name env (request_body q) = Inr name \<and>
           action_factory q name = Some info \<and>
           read env (request_body q) (validator info) = (None, cfg))"
proof (cases rule: dispatch_cases [where ec=ec and env=env and p=q])
  case failed
  with assms show ?thesis by (simp add: dispatch_failed_read)
next
  case (no_name e)
  with assms show ?thesis by (simp add: dispatch_no_name executed_invalid_packet)
next
  case (unknown name)
  with assms show ?thesis by (simp add: dispatch_unknown executed_invalid_packet)
next
  case (invalid name info e cfg)
  with assms show ?thesis by (simp add: dispatch_invalid executed_invalid_packet)
next
  case (valid name info cfg hs raised p2)
  then show ?thesis by blast
qed

subsection \<open>The history of a session\<close>





lemma complete_step:
  assumes "pending s = [op]" and "callback_of op = Some k" and "deliver op bytes (object s) = Some q"
  shows "complete env (Completion ec bytes) s =
           \<lparr>object = snd (fire env k ec q),
            pending = started (fst (fire env k ec q)),
            history = history s @ Fired k # map Started (started (fst (fire env k ec q))),
            performed = performed s @ fst (fire env k ec q)\<rparr>"
  using assms by (simp add: complete_def case_prod_beta)

lemma complete_outside:
  assumes "pending s = [op]" and "callback_of op = Some k" and "deliver op bytes (object s) = None"
  shows "complete env (Completion ec bytes) s =
           s\<lparr>pending := [], performed := performed s @ [Undefined_behaviour]\<rparr>"
  using assms by (simp add: complete_def)

lemma complete_idle: "pending s = [] \<Longrightarrow> complete env c s = s"
  by (cases c) (simp add: complete_def)

lemma run_idle: "pending s = [] \<Longrightarrow> run env cs s = s"
  by (induction cs) (simp_all add: run_def complete_idle)






subsection \<open>The registry and the server configuration are never written\<close>

lemma factory_async_send_error:
  "action_factory (snd (async_send_error env c p)) = action_factory p \<and>
   server_config (snd (async_send_error env c p)) = server_config p"
  by (simp add: async_send_error_eq)

lemma factory_invalid_packet:
  "action_factory (snd (async_send_invalid_packet env w e p)) = action_factory p \<and>
   server_config (snd (async_send_invalid_packet env w e p)) = server_config p"
  by (cases e) (simp_all add: async_send_invalid_packet.simps async_send_error_eq)

lemma factory_read_request_body:
  "action_factory (snd (read_request_body env ec p)) = action_factory p \<and>
   server_config (snd (read_request_body env ec p)) = server_config p"
  by (simp add: read_request_body_def case_prod_beta factory_invalid_packet factory_async_send_error
      subscript_def Let_def split: sum.split)

lemma factory_dispatch_request:
  assumes "keeps_registry env"
  shows "action_factory (snd (dispatch_request env ec p)) = action_factory p \<and>
         server_config (snd (dispatch_request env ec p)) = server_config p"
proof (cases rule: dispatch_cases [where ec=ec and env=env and p=p])
  case failed
  then show ?thesis by (simp add: dispatch_failed_read)
next
  case (no_name e)
  then show ?thesis by (simp add: dispatch_no_name factory_invalid_packet)
next
  case (unknown name)
  then show ?thesis by (simp add: dispatch_unknown factory_invalid_packet)
next
  case (invalid name info e cfg)
  then show ?thesis by (simp add: dispatch_invalid factory_invalid_packet) (simp add: validated_def)
next
  case (valid name info cfg hs raised p2)
  note assms [unfolded keeps_registry_def, rule_format, where a = "action info" and p = "validated p cfg"]
  then have "action_factory p2 = action_factory (validated p cfg) \<and>
      server_config p2 = server_config (validated p cfg)"
    by (simp add: valid(5))
  then have "action_factory p2 = action_factory p \<and> server_config p2 = server_config p"
    by (simp add: validated_def)
  with valid show ?thesis
    by (simp add: dispatch_valid [OF valid(2-5)] factory_invalid_packet split: option.split)
qed

lemma factory_dispatch_own:
  "executed (fst (dispatch_request env ec p)) = [] \<and>
     action_factory (snd (dispatch_request env ec p)) = action_factory p \<and>
     server_config (snd (dispatch_request env ec p)) = server_config p \<or>
   (\<exists>(info::request_info) cfg.
      executed (fst (dispatch_request env ec p)) = [action info] \<and>
      action_factory (snd (dispatch_request env ec p)) =
        action_factory (snd (snd (execute env (action info) (validated p cfg)))) \<and>
      server_config (snd (dispatch_request env ec p)) =
        server_config (snd (snd (execute env (action info) (validated p cfg)))))"
proof (cases rule: dispatch_cases [where ec=ec and env=env and p=p])
  case failed
  then show ?thesis by (simp add: dispatch_failed_read)
next
  case (no_name e)
  then show ?thesis by (simp add: dispatch_no_name factory_invalid_packet executed_invalid_packet)
next
  case (unknown name)
  then show ?thesis by (simp add: dispatch_unknown factory_invalid_packet executed_invalid_packet)
next
  case (invalid name info e cfg)
  then have "executed (fst (dispatch_request env ec p)) = [] \<and>
     action_factory (snd (dispatch_request env ec p)) = action_factory (validated p cfg) \<and>
     server_config (snd (dispatch_request env ec p)) = server_config (validated p cfg)"
    by (simp add: dispatch_invalid factory_invalid_packet executed_invalid_packet)
  then show ?thesis by (simp add: validated_def)
next
  case (valid name info cfg hs raised p2)
  have "executed (fst (dispatch_request env ec p)) = [action info] \<and>
      action_factory (snd (dispatch_request env ec p)) = action_factory p2 \<and>
      server_config (snd (dispatch_request env ec p)) = server_config p2"
    using valid(1)
    by (simp add: dispatch_valid [OF valid(2-5)] factory_invalid_packet executed_invalid_packet
        split: option.split)
  with valid(5) have "executed (fst (dispatch_request env ec p)) = [action info] \<and>
      action_factory (snd (dispatch_request env ec p)) =
        action_factory (snd (snd (execute env (action info) (validated p cfg)))) \<and>
      server_config (snd (dispatch_request env ec p)) =
        server_config (snd (snd (execute env (action info) (validated p cfg))))"
    by simp
  then show ?thesis
    by - (rule disjI2, rule exI [of _ info], rule exI [of _ cfg], assumption)
qed

lemma factory_deliver:
  "deliver operation bytes p = Some q \<Longrightarrow>
   action_factory q = action_factory p \<and> server_config q = server_config p"
  by (cases "(operation, bytes, p)" rule: deliver.cases) auto

lemma factory_fire:
  assumes "keeps_registry env"
  shows "action_factory (snd (fire env k ec p)) = action_factory p \<and>
         server_config (snd (fire env k ec p)) = server_config p"
  by (cases k) (simp_all add: factory_read_request_body factory_dispatch_request [OF assms]
      complete_request_def)

lemma factory_complete:
  assumes "keeps_registry env"
  shows "action_factory (object (complete env c s)) = action_factory (object s) \<and>
         server_config (object (complete env c s)) = server_config (object s)"
proof (cases c)
  case (Completion ec bytes)
  show ?thesis
  proof (cases "pending s")
    case Nil
    then show ?thesis by (simp add: complete_idle)
  next
    case (Cons operation rest)
    show ?thesis
    proof (cases "callback_of operation")
      case None
      with Cons Completion show ?thesis by (simp add: complete_def)
    next
      case (Some k)
      show ?thesis
      proof (cases "deliver operation bytes (object s)")
        case None
        with Some Cons Completion show ?thesis by (simp add: complete_def)
      next
        case delivered: (Some q)
        with Some Cons Completion factory_deliver [OF delivered] show ?thesis
          by (simp add: complete_def case_prod_beta factory_fire [OF assms])
      qed
    qed
  qed
qed

lemma factory_run:
  assumes "keeps_registry env"
  shows "action_factory (object (run env cs s)) = action_factory (object s) \<and>
         server_config (object (run env cs s)) = server_config (object s)"
proof (induction cs arbitrary: s)
  case Nil
  show ?case by (simp add: run_def)
next
  case (Cons c cs)
  have "run env (c # cs) s = run env cs (complete env c s)" by (simp add: run_def)
  with Cons [of "complete env c s"] factory_complete [OF assms, of c s] show ?case by simp
qed

subsection \<open>The sample environment evaluated\<close>

lemma sample_header_too_large: "sample_lexical_cast ''0010000000'' = Inr 10000000"
  by (simp add: sample_lexical_cast_def digit_of_def)

lemma sample_header_garbage: "sample_lexical_cast ''12 bytes  '' = Inl ''bad lexical cast''"
  by (simp add: sample_lexical_cast_def digit_of_def)

lemma sample_header_zero: "sample_lexical_cast ''0000000000'' = Inr 0"
  by (simp add: sample_lexical_cast_def digit_of_def)


lemmas sample_simps =
  sample_env_def sample_protocol_def sample_connected_def umcd_protocol_def
  register_request_info_def default_members_def sample_make_error_reply_def
  sample_to_buffers_def sample_error_condition_message_def wml_request_def empty_config_def


lemma sample_keeps_registry: "keeps_registry sample_env"
  by (simp add: keeps_registry_def sample_env_def sample_execute_def Let_def)

lemma sample_peek_license:
  "sample_peek_request_name ''[request_license][/request_license]'' = Inr ''request_license''"
  by (simp add: sample_peek_request_name_def)

lemma sample_peek_bad_license:
  "sample_peek_request_name ''[request_license]x[/request_license]'' = Inr ''request_license''"
  by (simp add: sample_peek_request_name_def)

lemma sample_registry:
  "action_factory sample_protocol ''request_license'' =
     Some \<lparr>validator = Schema ''request_license'', action = Request_license_action\<rparr>"
  "action_factory sample_protocol ''Request_License'' = None"
  by (simp_all add: sample_simps)

lemma sample_read_bad_license:
  "sample_read ''[request_license]x[/request_license]'' (Schema ''request_license'') =
     (Some (Twml_exception ''Invalid request_license.''
        ''schema request_license rejects [request_license]x[/request_license]''), empty_config)"
  by (simp add: sample_read_def)


lemma sample_run_empty_body:
  "performed (run sample_env [Completion 0 ''0000000000'', Completion 0 ''late bytes'']
      (accept sample_env (Some 1) sample_protocol)) =
     [Function_tracer (Some 1) ''handle_request'',
      Async_read Raw_request_size 10 Read_request_body,
      Function_tracer (Some 1) ''read_request_body'',
      Log Debug (Some 1) [Text '' -- Request of size: '', Number 0],
      Async_read (Request_body 0) 0 Dispatch_request,
      Function_tracer (Some 1) ''dispatch_request'',
      Log Error (Some 1)
        [Text '' -- invalid request at '', Text ''dispatch_request'', Text '' ('',
         Text ''no request name'', Text '')''],
      Function_tracer (Some 1) ''async_send_reply'',
      Async_write [''[error]message=The packet is invalid.'' @ [CHR 0x0A] @ ''[/error]''] Complete_request]"
  by (simp add: run_def accept_def complete_def handle_request_def read_request_body_def
      dispatch_request_def store_def subscript_def resize_def Let_def
      async_send_invalid_packet.simps async_send_error_eq
      sample_header_zero sample_simps sample_peek_request_name_def)


section \<open>The claims\<close>

subsection \<open>The length header\<close>

text \<open>
  C1. When the header read has succeeded and the header parses to a size above
  \<open>REQUEST_HEADER_MAX_SIZE\<close>, \<^verbatim>\<open>read_request_body\<close> sets the reply to the error reply
  of \<open>request_header_too_large\<close> and writes it; it does not resize the body buffer
  and the write is the only operation it starts: there is no read of a body.
\<close>

theorem oversized_request_rejected:
  assumes "lexical_cast env (raw_request_size p) = Inr request_size"
      and "request_size > REQUEST_HEADER_MAX_SIZE env"
  shows "read_request_body env 0 p =
           ([Function_tracer (client_connection p) ''read_request_body'',
             Log Debug (client_connection p) [Text '' -- Request of size: '', Number request_size],
             Function_tracer (client_connection p) ''async_send_reply'',
             Async_write (to_buffers env (make_error_reply env
                            (error_condition_message env Request_header_too_large))) Complete_request],
            p\<lparr>reply := make_error_reply env (error_condition_message env Request_header_too_large)\<rparr>) \<and>
         request_body (snd (read_request_body env 0 p)) = request_body p \<and>
         started (fst (read_request_body env 0 p)) =
           [Async_write (to_buffers env (make_error_reply env
                            (error_condition_message env Request_header_too_large))) Complete_request]"
  using assms by (simp add: read_request_body_def async_send_error_eq)

theorem oversized_request_rejected_witness:
  "lexical_cast sample_env (raw_request_size (sample_connected ''0010000000'' [])) = Inr 10000000 \<and>
   10000000 > REQUEST_HEADER_MAX_SIZE sample_env \<and>
   read_request_body sample_env 0 (sample_connected ''0010000000'' []) =
     ([Function_tracer (Some 1) ''read_request_body'',
       Log Debug (Some 1) [Text '' -- Request of size: '', Number 10000000],
       Function_tracer (Some 1) ''async_send_reply'',
       Async_write [''[error]message=The request header is too large.'' @ [CHR 0x0A] @ ''[/error]'']
         Complete_request],
      (sample_connected ''0010000000'' [])
        \<lparr>reply := Wml_reply (Config [] [(''error'', Config [(''message'', ''The request header is too large.'')] [])])\<rparr>)"
  using oversized_request_rejected [of sample_env "sample_connected ''0010000000'' []" 10000000]
  by (simp add: sample_header_too_large sample_simps)

text \<open>
  C3. When the header read has succeeded and \<^verbatim>\<open>lexical_cast\<close> throws on the header,
  \<^verbatim>\<open>read_request_body\<close> logs the exception, sets the reply to the error reply of
  \<open>invalid_packet\<close> and writes it; the body buffer is untouched and no read of a body
  is started.
\<close>

theorem malformed_header_rejected:
  assumes "lexical_cast env (raw_request_size p) = Inl what"
  shows "read_request_body env 0 p =
           ([Function_tracer (client_connection p) ''read_request_body'',
             Log Error (client_connection p)
               [Text '' -- invalid request at '', Text ''read_request_body'', Text '' ('', Text what, Text '')''],
             Function_tracer (client_connection p) ''async_send_reply'',
             Async_write (to_buffers env (make_error_reply env
                            (error_condition_message env Invalid_packet))) Complete_request],
            p\<lparr>reply := make_error_reply env (error_condition_message env Invalid_packet)\<rparr>) \<and>
         request_body (snd (read_request_body env 0 p)) = request_body p \<and>
         started (fst (read_request_body env 0 p)) =
           [Async_write (to_buffers env (make_error_reply env
                            (error_condition_message env Invalid_packet))) Complete_request]"
  using assms
  by (simp add: read_request_body_def async_send_invalid_packet.simps async_send_error_eq)

theorem malformed_header_rejected_witness:
  "lexical_cast sample_env (raw_request_size (sample_connected ''12 bytes  '' [])) = Inl ''bad lexical cast'' \<and>
   read_request_body sample_env 0 (sample_connected ''12 bytes  '' []) =
     ([Function_tracer (Some 1) ''read_request_body'',
       Log Error (Some 1)
         [Text '' -- invalid request at '', Text ''read_request_body'', Text '' ('',
          Text ''bad lexical cast'', Text '')''],
       Function_tracer (Some 1) ''async_send_reply'',
       Async_write [''[error]message=The packet is invalid.'' @ [CHR 0x0A] @ ''[/error]''] Complete_request],
      (sample_connected ''12 bytes  '' [])
        \<lparr>reply := Wml_reply (Config [] [(''error'', Config [(''message'', ''The packet is invalid.'')] [])])\<rparr>)"
  using malformed_header_rejected [of sample_env "sample_connected ''12 bytes  '' []" "''bad lexical cast''"]
  by (simp add: sample_header_garbage sample_simps)

text \<open>
  C9. A header that parses to zero is not an error: \<^verbatim>\<open>read_request_body\<close> makes the
  body empty, takes \<^verbatim>\<open>&request_body[0]\<close>, which is the position \<^verbatim>\<open>size()\<close> of the
  empty string and so within what \<^verbatim>\<open>operator[]\<close> allows, and starts a read of zero
  bytes from there, bound to \<^verbatim>\<open>dispatch_request\<close>, with no error reply. The zero bytes
  from position zero lie within the empty storage: the completion of the read writes
  nothing, whatever bytes it is given, and runs \<^verbatim>\<open>dispatch_request\<close>, which looks for
  the request name in the empty body, resolves it, has \<^verbatim>\<open>::read\<close> parse and validate
  the empty body, and executes the action or sends the error reply, as for any body.
\<close>

theorem empty_body_permitted:
  assumes "lexical_cast env (raw_request_size p) = Inr 0"
  shows "read_request_body env 0 p =
           ([Function_tracer (client_connection p) ''read_request_body'',
             Log Debug (client_connection p) [Text '' -- Request of size: '', Number 0],
             Async_read (Request_body 0) 0 Dispatch_request],
            p\<lparr>request_body := []\<rparr>) \<and>
         subscript (request_body (snd (read_request_body env 0 p))) 0 = Some 0 \<and>
         deliver (Async_read (Request_body 0) 0 Dispatch_request) bytes (p\<lparr>request_body := []\<rparr>) =
           Some (p\<lparr>request_body := []\<rparr>) \<and>
         complete env (Completion 0 bytes)
           \<lparr>object = snd (read_request_body env 0 p),
            pending = started (fst (read_request_body env 0 p)),
            history = h, performed = es\<rparr> =
           \<lparr>object = snd (dispatch_request env 0 (p\<lparr>request_body := []\<rparr>)),
            pending = started (fst (dispatch_request env 0 (p\<lparr>request_body := []\<rparr>))),
            history = h @ Fired Dispatch_request #
                        map Started (started (fst (dispatch_request env 0 (p\<lparr>request_body := []\<rparr>)))),
            performed = es @ fst (dispatch_request env 0 (p\<lparr>request_body := []\<rparr>))\<rparr> \<and>
         fst (dispatch_request env 0 (p\<lparr>request_body := []\<rparr>)) =
           Function_tracer (client_connection p) ''dispatch_request'' #
           (case peek_request_name env [] of
              Inl e \<Rightarrow> fst (async_send_invalid_packet env ''dispatch_request'' e (p\<lparr>request_body := []\<rparr>))
            | Inr name \<Rightarrow>
                Log Info (client_connection p) [Text '' -- request: '', Text name] #
                (case action_factory p name of
                   None \<Rightarrow>
                     fst (async_send_invalid_packet env ''dispatch_request''
                            (Std_exception (unknown_product_what env name)) (p\<lparr>request_body := []\<rparr>))
                 | Some info \<Rightarrow>
                     Log Info (client_connection p) [Text ('' -- request:'' @ [CHR 0x0A]), Text []] #
                     (case fst (read env [] (validator info)) of
                        Some e \<Rightarrow>
                          fst (async_send_invalid_packet env ''dispatch_request'' e
                                 (validated (p\<lparr>request_body := []\<rparr>) (snd (read env [] (validator info)))))
                      | None \<Rightarrow>
                          Log Debug (client_connection p) [Text '' -- request validated.''] #
                          Execute (action info)
                            (fst (execute env (action info)
                                    (validated (p\<lparr>request_body := []\<rparr>)
                                       (snd (read env [] (validator info)))))) #
                          (case fst (snd (execute env (action info)
                                            (validated (p\<lparr>request_body := []\<rparr>)
                                               (snd (read env [] (validator info)))))) of
                             None \<Rightarrow> []
                           | Some e \<Rightarrow>
                               fst (async_send_invalid_packet env ''dispatch_request'' e
                                      (snd (snd (execute env (action info)
                                                   (validated (p\<lparr>request_body := []\<rparr>)
                                                      (snd (read env [] (validator info))))))))))))"
proof -
  let ?q = "p\<lparr>request_body := []\<rparr>"
  have a: "read_request_body env 0 p =
           ([Function_tracer (client_connection p) ''read_request_body'',
             Log Debug (client_connection p) [Text '' -- Request of size: '', Number 0],
             Async_read (Request_body 0) 0 Dispatch_request],
            ?q)"
    using assms by (simp add: read_request_body_def resize_def subscript_def)
  have b: "subscript (request_body (snd (read_request_body env 0 p))) 0 = Some 0"
    by (simp add: a subscript_def)
  have c: "deliver (Async_read (Request_body 0) 0 Dispatch_request) bytes ?q = Some ?q"
    by (simp add: store_def)
  have d: "complete env (Completion 0 bytes)
           \<lparr>object = snd (read_request_body env 0 p),
            pending = started (fst (read_request_body env 0 p)),
            history = h, performed = es\<rparr> =
           \<lparr>object = snd (dispatch_request env 0 ?q),
            pending = started (fst (dispatch_request env 0 ?q)),
            history = h @ Fired Dispatch_request # map Started (started (fst (dispatch_request env 0 ?q))),
            performed = es @ fst (dispatch_request env 0 ?q)\<rparr>"
  proof -
    let ?s = "\<lparr>object = ?q, pending = [Async_read (Request_body 0) 0 Dispatch_request],
               history = h, performed = es\<rparr>"
    have "pending ?s = [Async_read (Request_body 0) 0 Dispatch_request]"
      and "callback_of (Async_read (Request_body 0) 0 Dispatch_request) = Some Dispatch_request"
      and "deliver (Async_read (Request_body 0) 0 Dispatch_request) bytes (object ?s) = Some ?q"
      using c by simp_all
    from complete_step [OF this, of env 0] have "complete env (Completion 0 bytes) ?s =
           \<lparr>object = snd (dispatch_request env 0 ?q),
            pending = started (fst (dispatch_request env 0 ?q)),
            history = h @ Fired Dispatch_request # map Started (started (fst (dispatch_request env 0 ?q))),
            performed = es @ fst (dispatch_request env 0 ?q)\<rparr>"
      by simp
    then show ?thesis
      by (simp only: a fst_conv snd_conv started_simps)
  qed
  have e: "fst (dispatch_request env 0 ?q) =
           Function_tracer (client_connection p) ''dispatch_request'' #
           (case peek_request_name env [] of
              Inl e \<Rightarrow> fst (async_send_invalid_packet env ''dispatch_request'' e ?q)
            | Inr name \<Rightarrow>
                Log Info (client_connection p) [Text '' -- request: '', Text name] #
                (case action_factory p name of
                   None \<Rightarrow>
                     fst (async_send_invalid_packet env ''dispatch_request''
                            (Std_exception (unknown_product_what env name)) ?q)
                 | Some info \<Rightarrow>
                     Log Info (client_connection p) [Text ('' -- request:'' @ [CHR 0x0A]), Text []] #
                     (case fst (read env [] (validator info)) of
                        Some e \<Rightarrow>
                          fst (async_send_invalid_packet env ''dispatch_request'' e
                                 (validated ?q (snd (read env [] (validator info)))))
                      | None \<Rightarrow>
                          Log Debug (client_connection p) [Text '' -- request validated.''] #
                          Execute (action info)
                            (fst (execute env (action info)
                                    (validated ?q (snd (read env [] (validator info)))))) #
                          (case fst (snd (execute env (action info)
                                            (validated ?q (snd (read env [] (validator info)))))) of
                             None \<Rightarrow> []
                           | Some e \<Rightarrow>
                               fst (async_send_invalid_packet env ''dispatch_request'' e
                                      (snd (snd (execute env (action info)
                                                   (validated ?q
                                                      (snd (read env [] (validator info))))))))))))"
    by (simp add: dispatch_effects cong: sum.case_cong option.case_cong)
  show ?thesis
    by (intro conjI) (rule a b c d e)+
qed

theorem empty_body_permitted_witness:
  "lexical_cast sample_env (raw_request_size (sample_connected ''0000000000'' [])) = Inr 0 \<and>
   read_request_body sample_env 0 (sample_connected ''0000000000'' []) =
     ([Function_tracer (Some 1) ''read_request_body'',
       Log Debug (Some 1) [Text '' -- Request of size: '', Number 0],
       Async_read (Request_body 0) 0 Dispatch_request],
      sample_connected ''0000000000'' []) \<and>
   fst (dispatch_request sample_env 0 (sample_connected ''0000000000'' [])) =
     [Function_tracer (Some 1) ''dispatch_request'',
      Log Error (Some 1)
        [Text '' -- invalid request at '', Text ''dispatch_request'', Text '' ('',
         Text ''no request name'', Text '')''],
      Function_tracer (Some 1) ''async_send_reply'',
      Async_write [''[error]message=The packet is invalid.'' @ [CHR 0x0A] @ ''[/error]''] Complete_request] \<and>
   performed (run sample_env [Completion 0 ''0000000000'', Completion 0 ''late bytes'']
      (accept sample_env (Some 1) sample_protocol)) =
     [Function_tracer (Some 1) ''handle_request'',
      Async_read Raw_request_size 10 Read_request_body,
      Function_tracer (Some 1) ''read_request_body'',
      Log Debug (Some 1) [Text '' -- Request of size: '', Number 0],
      Async_read (Request_body 0) 0 Dispatch_request,
      Function_tracer (Some 1) ''dispatch_request'',
      Log Error (Some 1)
        [Text '' -- invalid request at '', Text ''dispatch_request'', Text '' ('',
         Text ''no request name'', Text '')''],
      Function_tracer (Some 1) ''async_send_reply'',
      Async_write [''[error]message=The packet is invalid.'' @ [CHR 0x0A] @ ''[/error]''] Complete_request]"
proof -
  let ?p = "sample_connected ''0000000000'' []"
  have z: "lexical_cast sample_env (raw_request_size ?p) = Inr 0"
    by (simp add: sample_env_def sample_connected_def sample_header_zero)
  have same: "?p\<lparr>request_body := []\<rparr> = ?p"
    by (simp add: sample_connected_def)
  have peek: "peek_request_name sample_env [] = Inl (Std_exception ''no request name'')"
    by (simp add: sample_env_def sample_peek_request_name_def)
  note th = empty_body_permitted [OF z, of "''late bytes''"]
  from th [THEN conjunct1] have one: "read_request_body sample_env 0 ?p =
     ([Function_tracer (Some 1) ''read_request_body'',
       Log Debug (Some 1) [Text '' -- Request of size: '', Number 0],
       Async_read (Request_body 0) 0 Dispatch_request], ?p)"
    by (simp add: same) (simp add: sample_connected_def)
  from th [THEN conjunct2, THEN conjunct2, THEN conjunct2, THEN conjunct2]
  have two: "fst (dispatch_request sample_env 0 ?p) =
     [Function_tracer (Some 1) ''dispatch_request'',
      Log Error (Some 1)
        [Text '' -- invalid request at '', Text ''dispatch_request'', Text '' ('',
         Text ''no request name'', Text '')''],
      Function_tracer (Some 1) ''async_send_reply'',
      Async_write [''[error]message=The packet is invalid.'' @ [CHR 0x0A] @ ''[/error]''] Complete_request]"
    by (simp add: same peek async_send_invalid_packet.simps async_send_error_eq)
      (simp add: sample_connected_def sample_env_def sample_make_error_reply_def
        sample_error_condition_message_def sample_to_buffers_def)
  from z one two sample_run_empty_body show ?thesis by simp
qed

subsection \<open>Dispatch\<close>

text \<open>
  C2. When the body names a registered kind and \<^verbatim>\<open>::read\<close> accepts it against the
  validator of that kind, \<^verbatim>\<open>dispatch_request\<close> resolves the registered descriptor and
  executes its action exactly once: the call comes after the log line of the successful
  validation, on the object that holds the validated metadata, and nothing after it
  executes an action again. And whenever \<^verbatim>\<open>dispatch_request\<close> executes an action, the
  body read had succeeded, the body named a registered kind and \<^verbatim>\<open>::read\<close> had
  accepted it.
\<close>

theorem valid_request_dispatched:
  assumes "peek_request_name env (request_body p) = Inr name"
      and "action_factory p name = Some info"
      and "read env (request_body p) (validator info) = (None, cfg)"
  shows "make_product env (action_factory p) name = Inr info \<and>
         fst (dispatch_request env 0 p) =
           [Function_tracer (client_connection p) ''dispatch_request'',
            Log Info (client_connection p) [Text '' -- request: '', Text name],
            Log Info (client_connection p) [Text ('' -- request:'' @ [CHR 0x0A]), Text (request_body p)],
            Log Debug (client_connection p) [Text '' -- request validated.''],
            Execute (action info) (fst (execute env (action info) (validated p cfg)))] @
           (case fst (snd (execute env (action info) (validated p cfg))) of
              None \<Rightarrow> []
            | Some e \<Rightarrow> fst (async_send_invalid_packet env ''dispatch_request'' e
                              (snd (snd (execute env (action info) (validated p cfg)))))) \<and>
         executed (fst (dispatch_request env 0 p)) = [action info] \<and>
         (\<forall>ec q. executed (fst (dispatch_request env ec q)) \<noteq> [] \<longrightarrow>
            ec = 0 \<and>
            (\<exists>name' info' cfg'. peek_request_name env (request_body q) = Inr name' \<and>
               action_factory q name' = Some info' \<and>
               read env (request_body q) (validator info') = (None, cfg')))"
proof -
  obtain hs raised p2 where ex: "execute env (action info) (validated p cfg) = (hs, raised, p2)"
    by (cases "execute env (action info) (validated p cfg)")
  have "make_product env (action_factory p) name = Inr info"
    using assms(2) by (simp add: make_product_def)
  moreover note dispatch_valid [OF assms ex]
  ultimately have "make_product env (action_factory p) name = Inr info \<and>
         fst (dispatch_request env 0 p) =
           [Function_tracer (client_connection p) ''dispatch_request'',
            Log Info (client_connection p) [Text '' -- request: '', Text name],
            Log Info (client_connection p) [Text ('' -- request:'' @ [CHR 0x0A]), Text (request_body p)],
            Log Debug (client_connection p) [Text '' -- request validated.''],
            Execute (action info) (fst (execute env (action info) (validated p cfg)))] @
           (case fst (snd (execute env (action info) (validated p cfg))) of
              None \<Rightarrow> []
            | Some e \<Rightarrow> fst (async_send_invalid_packet env ''dispatch_request'' e
                              (snd (snd (execute env (action info) (validated p cfg)))))) \<and>
         executed (fst (dispatch_request env 0 p)) = [action info]"
    by (simp add: ex executed_invalid_packet split: option.split)
  with executed_only_when_valid [of env] show ?thesis by blast
qed

theorem valid_request_dispatched_witness:
  "peek_request_name sample_env (request_body (sample_connected ''0000000035'' ''[request_license][/request_license]''))
     = Inr ''request_license'' \<and>
   action_factory (sample_connected ''0000000035'' ''[request_license][/request_license]'') ''request_license''
     = Some \<lparr>validator = Schema ''request_license'', action = Request_license_action\<rparr> \<and>
   read sample_env ''[request_license][/request_license]'' (Schema ''request_license'')
     = (None, Config [] [(''request_license'', empty_config)]) \<and>
   executed (fst (dispatch_request sample_env 0
      (sample_connected ''0000000035'' ''[request_license][/request_license]''))) = [Request_license_action]"
proof -
  let ?p = "sample_connected ''0000000035'' ''[request_license][/request_license]''"
  let ?info = "\<lparr>validator = Schema ''request_license'', action = Request_license_action\<rparr>"
  have name: "peek_request_name sample_env (request_body ?p) = Inr ''request_license''"
    by (simp add: sample_env_def sample_connected_def sample_peek_license)
  have reg: "action_factory ?p ''request_license'' = Some ?info"
    by (simp add: sample_connected_def sample_registry)
  have ok: "read sample_env (request_body ?p) (validator ?info) =
              (None, Config [] [(''request_license'', empty_config)])"
    by (simp add: sample_env_def sample_connected_def sample_read_def)
  from valid_request_dispatched [OF name reg ok, THEN conjunct2, THEN conjunct2] name reg ok show ?thesis
    by (simp add: sample_connected_def)
qed

text \<open>
  C4. When the body names a kind that the registry does not hold, resolution fails
  (the match is on the exact name, and there is no default), \<^verbatim>\<open>dispatch_request\<close>
  logs the failure, sets the reply to the error reply of \<open>invalid_packet\<close>, writes it,
  and executes no action. The witness is the registered name with other letter case.
\<close>

theorem unknown_kind_rejected:
  assumes "peek_request_name env (request_body p) = Inr name"
      and "action_factory p name = None"
  shows "make_product env (action_factory p) name = Inl (Std_exception (unknown_product_what env name)) \<and>
         dispatch_request env 0 p =
           ([Function_tracer (client_connection p) ''dispatch_request'',
             Log Info (client_connection p) [Text '' -- request: '', Text name],
             Log Error (client_connection p)
               [Text '' -- invalid request at '', Text ''dispatch_request'', Text '' ('', Text (unknown_product_what env name), Text '')''],
             Function_tracer (client_connection p) ''async_send_reply'',
             Async_write (to_buffers env (make_error_reply env
                            (error_condition_message env Invalid_packet))) Complete_request],
            p\<lparr>reply := make_error_reply env (error_condition_message env Invalid_packet)\<rparr>) \<and>
         executed (fst (dispatch_request env 0 p)) = []"
  using assms
  by (simp add: dispatch_unknown make_product_def async_send_invalid_packet.simps async_send_error_eq)

theorem unknown_kind_rejected_witness:
  "peek_request_name sample_env (request_body (sample_connected ''0000000035'' ''[Request_License][/Request_License]''))
     = Inr ''Request_License'' \<and>
   action_factory (sample_connected ''0000000035'' ''[Request_License][/Request_License]'') ''Request_License''
     = None \<and>
   reply (snd (dispatch_request sample_env 0
      (sample_connected ''0000000035'' ''[Request_License][/Request_License]''))) =
     Wml_reply (Config [] [(''error'', Config [(''message'', ''The packet is invalid.'')] [])]) \<and>
   executed (fst (dispatch_request sample_env 0
      (sample_connected ''0000000035'' ''[Request_License][/Request_License]''))) = []"
proof -
  let ?p = "sample_connected ''0000000035'' ''[Request_License][/Request_License]''"
  have name: "peek_request_name sample_env (request_body ?p) = Inr ''Request_License''"
    by (simp add: sample_env_def sample_connected_def sample_peek_request_name_def)
  have reg: "action_factory ?p ''Request_License'' = None"
    by (simp add: sample_connected_def sample_registry)
  from unknown_kind_rejected [OF name reg] name reg show ?thesis
    by (simp add: sample_env_def sample_make_error_reply_def sample_error_condition_message_def)
qed

text \<open>
  C5, as stated, fails: the reply to a body that fails validation does not carry the user
  message of the validation failure. In the sample environment the failure has the user
  message \<open>Invalid request_license.\<close>, and the reply written is the error reply of the
  message of \<open>invalid_packet\<close>.
\<close>

theorem reply_carries_user_message_counterexample:
  "fst (read sample_env ''[request_license]x[/request_license]'' (Schema ''request_license'')) =
     Some (Twml_exception ''Invalid request_license.''
        ''schema request_license rejects [request_license]x[/request_license]'') \<and>
   reply (snd (dispatch_request sample_env 0
      (sample_connected ''0000000036'' ''[request_license]x[/request_license]''))) =
     make_error_reply sample_env ''The packet is invalid.'' \<and>
   reply (snd (dispatch_request sample_env 0
      (sample_connected ''0000000036'' ''[request_license]x[/request_license]''))) \<noteq>
     make_error_reply sample_env ''Invalid request_license.'' \<and>
   started (fst (dispatch_request sample_env 0
      (sample_connected ''0000000036'' ''[request_license]x[/request_license]''))) =
     [Async_write [''[error]message=The packet is invalid.'' @ [CHR 0x0A] @ ''[/error]''] Complete_request]"
proof -
  let ?p = "sample_connected ''0000000036'' ''[request_license]x[/request_license]''"
  let ?info = "\<lparr>validator = Schema ''request_license'', action = Request_license_action\<rparr>"
  have name: "peek_request_name sample_env (request_body ?p) = Inr ''request_license''"
    by (simp add: sample_env_def sample_connected_def sample_peek_bad_license)
  have reg: "action_factory ?p ''request_license'' = Some ?info"
    by (simp add: sample_connected_def sample_registry)
  have bad: "read sample_env (request_body ?p) (validator ?info) =
              (Some (Twml_exception ''Invalid request_license.''
                 ''schema request_license rejects [request_license]x[/request_license]''), empty_config)"
    by (simp add: sample_env_def sample_connected_def sample_read_bad_license)
  from dispatch_invalid [OF name reg bad] bad show ?thesis
    by (simp add: async_send_invalid_packet.simps async_send_error_eq sample_connected_def
        sample_env_def sample_make_error_reply_def sample_error_condition_message_def
        sample_to_buffers_def)
qed

text \<open>
  C5, amended. When the body names a registered kind and \<^verbatim>\<open>::read\<close> throws a
  \<^verbatim>\<open>twml_exception\<close>, \<^verbatim>\<open>dispatch_request\<close> writes one error line to the log that holds
  both the user message and the developer message, sets the reply to the error reply of
  the message of \<open>invalid_packet\<close> (neither message of the exception is in it), writes
  it, and executes no action.
\<close>

theorem invalid_request_rejected:
  assumes "peek_request_name env (request_body p) = Inr name"
      and "action_factory p name = Some info"
      and "read env (request_body p) (validator info) = (Some (Twml_exception user_msg dev_msg), cfg)"
  shows "dispatch_request env 0 p =
           ([Function_tracer (client_connection p) ''dispatch_request'',
             Log Info (client_connection p) [Text '' -- request: '', Text name],
             Log Info (client_connection p) [Text ('' -- request:'' @ [CHR 0x0A]), Text (request_body p)],
             Log Error (client_connection p)
               [Text '' -- invalid request at '', Text ''dispatch_request'', Text '' (user message='',
                Text user_msg, Text '' ; dev message='', Text dev_msg, Text '')''],
             Function_tracer (client_connection p) ''async_send_reply'',
             Async_write (to_buffers env (make_error_reply env
                            (error_condition_message env Invalid_packet))) Complete_request],
            (validated p cfg)\<lparr>reply := make_error_reply env (error_condition_message env Invalid_packet)\<rparr>) \<and>
         executed (fst (dispatch_request env 0 p)) = []"
  using assms
  by (simp add: dispatch_invalid async_send_invalid_packet.simps async_send_error_eq validated_def)

theorem invalid_request_rejected_witness:
  "peek_request_name sample_env (request_body (sample_connected ''0000000036'' ''[request_license]x[/request_license]''))
     = Inr ''request_license'' \<and>
   action_factory (sample_connected ''0000000036'' ''[request_license]x[/request_license]'') ''request_license''
     = Some \<lparr>validator = Schema ''request_license'', action = Request_license_action\<rparr> \<and>
   read sample_env ''[request_license]x[/request_license]'' (Schema ''request_license'')
     = (Some (Twml_exception ''Invalid request_license.''
          ''schema request_license rejects [request_license]x[/request_license]''), empty_config) \<and>
   logged (fst (dispatch_request sample_env 0
      (sample_connected ''0000000036'' ''[request_license]x[/request_license]''))) =
     [(Info, [Text '' -- request: '', Text ''request_license'']),
      (Info, [Text ('' -- request:'' @ [CHR 0x0A]), Text ''[request_license]x[/request_license]'']),
      (Error, [Text '' -- invalid request at '', Text ''dispatch_request'', Text '' (user message='',
               Text ''Invalid request_license.'', Text '' ; dev message='',
               Text ''schema request_license rejects [request_license]x[/request_license]'', Text '')''])] \<and>
   started (fst (dispatch_request sample_env 0
      (sample_connected ''0000000036'' ''[request_license]x[/request_license]''))) =
     [Async_write [''[error]message=The packet is invalid.'' @ [CHR 0x0A] @ ''[/error]''] Complete_request] \<and>
   executed (fst (dispatch_request sample_env 0
      (sample_connected ''0000000036'' ''[request_license]x[/request_license]''))) = []"
proof -
  let ?p = "sample_connected ''0000000036'' ''[request_license]x[/request_license]''"
  let ?info = "\<lparr>validator = Schema ''request_license'', action = Request_license_action\<rparr>"
  have name: "peek_request_name sample_env (request_body ?p) = Inr ''request_license''"
    by (simp add: sample_env_def sample_connected_def sample_peek_bad_license)
  have reg: "action_factory ?p ''request_license'' = Some ?info"
    by (simp add: sample_connected_def sample_registry)
  have bad: "read sample_env (request_body ?p) (validator ?info) =
              (Some (Twml_exception ''Invalid request_license.''
                 ''schema request_license rejects [request_license]x[/request_license]''), empty_config)"
    by (simp add: sample_env_def sample_connected_def sample_read_bad_license)
  from invalid_request_rejected [OF name reg bad] name reg bad show ?thesis
    by (simp add: sample_connected_def sample_env_def sample_make_error_reply_def
        sample_error_condition_message_def sample_to_buffers_def)
qed

subsection \<open>Error replies\<close>

text \<open>
  C6. Every error reply is made by \<^verbatim>\<open>async_send_error\<close> from the message of the error
  condition alone. The reply that \<^verbatim>\<open>async_send_invalid_packet\<close> sets and the bytes it
  writes are the same for any two exceptions and any two places: they do not depend on
  \<^verbatim>\<open>what()\<close>, on the user message or on the developer message.
\<close>

theorem error_reply_independent_of_diagnostic:
  "started (fst (async_send_error env c p)) =
     [Async_write (to_buffers env (make_error_reply env (error_condition_message env c))) Complete_request] \<and>
   reply (snd (async_send_error env c p)) = make_error_reply env (error_condition_message env c) \<and>
   started (fst (async_send_invalid_packet env w e p)) =
     [Async_write (to_buffers env (make_error_reply env (error_condition_message env Invalid_packet)))
        Complete_request] \<and>
   reply (snd (async_send_invalid_packet env w e p)) =
     make_error_reply env (error_condition_message env Invalid_packet) \<and>
   started (fst (async_send_invalid_packet env w e p)) = started (fst (async_send_invalid_packet env w' e' p)) \<and>
   reply (snd (async_send_invalid_packet env w e p)) = reply (snd (async_send_invalid_packet env w' e' p))"
proof -
  have r: "reply (snd (async_send_invalid_packet env v x p)) =
      make_error_reply env (error_condition_message env Invalid_packet)" for v x
    by (cases x) (simp_all add: async_send_invalid_packet.simps async_send_error_eq)
  show ?thesis
    by (simp add: started_async_send_error started_invalid_packet r async_send_error_eq)
qed

subsection \<open>The order of the phases\<close>




subsection \<open>I/O failures\<close>

text \<open>
  C8, as stated, fails: a failed read is not logged. With error code 104 the completion
  handlers of the header read and of the body read write no log line.
\<close>

theorem failed_read_not_logged_counterexample:
  "logged (fst (read_request_body sample_env 104 (sample_connected ''??????????'' []))) = [] \<and>
   logged (fst (dispatch_request sample_env 104 (sample_connected ''0000000033'' (replicate 33 (CHR 0x00))))) = []"
  by (simp add: read_request_body_def dispatch_failed_read)

text \<open>
  C8, amended. On an I/O failure no error reply is sent, nothing is retried and the session
  starts no further read or write: the completion handlers of the two reads only trace
  their call and log nothing, the completion handler of the write logs that the data
  could not be sent, no handler starts an operation, and once the failed completion is delivered the
  session has nothing outstanding and later completions leave it as it is.
\<close>

theorem io_failure_ends_session:
  assumes "error \<noteq> 0"
  shows "read_request_body env error p = ([Function_tracer (client_connection p) ''read_request_body''], p) \<and>
         dispatch_request env error p = ([Function_tracer (client_connection p) ''dispatch_request''], p) \<and>
         complete_request env error p =
           ([Function_tracer (client_connection p) ''complete_request'',
             Log Info (client_connection p)
               [Text '' -- unable to send data to the client ('', Text (error_code_message env error),
                Text ''). Connection dropped.'']], p) \<and>
         started (fst (fire env k error p)) = [] \<and>
         (pending s = [operation] \<longrightarrow>
            pending (complete env (Completion error bytes) s) = [] \<and>
            run env cs (complete env (Completion error bytes) s) = complete env (Completion error bytes) s)"
proof -
  have a: "read_request_body env error p = ([Function_tracer (client_connection p) ''read_request_body''], p)"
    using assms by (simp add: read_request_body_def)
  have b: "dispatch_request env error p = ([Function_tracer (client_connection p) ''dispatch_request''], p)"
    using assms by (simp add: dispatch_failed_read)
  have c: "complete_request env error p =
           ([Function_tracer (client_connection p) ''complete_request'',
             Log Info (client_connection p)
               [Text '' -- unable to send data to the client ('', Text (error_code_message env error),
                Text ''). Connection dropped.'']], p)"
    using assms by (simp add: complete_request_def)
  have d: "started (fst (fire env k error q)) = []" for q
    using assms by (cases k) (simp_all add: read_request_body_def dispatch_failed_read complete_request_def)
  have e: "pending (complete env (Completion error bytes) s) = []" if "pending s = [operation]"
  proof (cases "callback_of operation")
    case None
    with that show ?thesis by (simp add: complete_def)
  next
    case (Some k')
    show ?thesis
    proof (cases "deliver operation bytes (object s)")
      case None
      from complete_outside [OF that Some None] show ?thesis by simp
    next
      case delivered: (Some q)
      from complete_step [OF that Some delivered] show ?thesis
        using assms
        by (cases k') (simp_all add: read_request_body_def dispatch_failed_read complete_request_def)
    qed
  qed
  from a b c d e show ?thesis by (simp add: run_idle)
qed

theorem io_failure_ends_session_witness:
  "(104::int) \<noteq> 0 \<and>
   read_request_body sample_env 104 (sample_connected ''??????????'' []) =
     ([Function_tracer (Some 1) ''read_request_body''], sample_connected ''??????????'' []) \<and>
   complete_request sample_env 104 (sample_connected ''0000000033'' []) =
     ([Function_tracer (Some 1) ''complete_request'',
       Log Info (Some 1) [Text '' -- unable to send data to the client ('', Text ''I/O error'',
                          Text ''). Connection dropped.'']], sample_connected ''0000000033'' []) \<and>
   pending (accept sample_env (Some 1) sample_protocol) =
     [Async_read Raw_request_size 10 Read_request_body] \<and>
   pending (complete sample_env (Completion 104 ''00'') (accept sample_env (Some 1) sample_protocol)) = []"
proof -
  have ne: "(104::int) \<noteq> 0" by simp
  have pend: "pending (accept sample_env (Some 1) sample_protocol) =
     [Async_read Raw_request_size 10 Read_request_body]"
    by (simp add: accept_def handle_request_def sample_simps)
  from io_failure_ends_session [OF ne, of sample_env "sample_connected ''??????????'' []"
      Read_request_body "accept sample_env (Some 1) sample_protocol"
      "Async_read Raw_request_size 10 Read_request_body" "''00''" "[]"]
    io_failure_ends_session [OF ne, of sample_env "sample_connected ''0000000033'' []"
      Read_request_body "accept sample_env (Some 1) sample_protocol"
      "Async_read Raw_request_size 10 Read_request_body" "''00''" "[]"]
    pend
  show ?thesis
    by (simp add: sample_connected_def sample_env_def)
qed

subsection \<open>The registry\<close>

text \<open>
  C10. The constructor registers exactly the kinds \<open>request_license\<close> and
  \<open>request_umc_upload\<close>. No member function writes the registry:
  \<^verbatim>\<open>dispatch_request\<close> leaves it as it was when it executes no action, and as the
  action it executed left it otherwise; so no member function and no session changes
  it, provided the actions leave it alone. The copy constructor takes the registry and
  the server configuration of the original and nothing else: the connection is null,
  the body is empty, request and reply are default-constructed.
\<close>

theorem registry_fixed_after_construction:
  "dom (action_factory (umcd_protocol cfg junk)) = {''request_license'', ''request_umc_upload''} \<and>
   action_factory (umcd_protocol cfg junk) ''request_license'' =
     Some \<lparr>validator = Schema ''request_license'', action = Request_license_action\<rparr> \<and>
   action_factory (umcd_protocol cfg junk) ''request_umc_upload'' =
     Some \<lparr>validator = Schema ''request_umc_upload'', action = Request_umc_upload_action\<rparr> \<and>
   action_factory (snd (handle_request env client p)) = action_factory p \<and>
   action_factory (snd (read_request_body env ec p)) = action_factory p \<and>
   action_factory (snd (complete_request env ec p)) = action_factory p \<and>
   action_factory (snd (async_send_reply env p)) = action_factory p \<and>
   action_factory (snd (async_send_error env c p)) = action_factory p \<and>
   action_factory (snd (async_send_invalid_packet env w e p)) = action_factory p \<and>
   (executed (fst (dispatch_request env ec p)) = [] \<and>
      action_factory (snd (dispatch_request env ec p)) = action_factory p \<or>
    (\<exists>(info::request_info) cfg'.
       executed (fst (dispatch_request env ec p)) = [action info] \<and>
       action_factory (snd (dispatch_request env ec p)) =
         action_factory (snd (snd (execute env (action info) (validated p cfg')))))) \<and>
   (keeps_registry env \<longrightarrow>
      action_factory (snd (dispatch_request env ec p)) = action_factory p \<and>
      action_factory (object (run env cs (accept env client p))) = action_factory p) \<and>
   action_factory (umcd_protocol_copy p junk') = action_factory p \<and>
   server_config (umcd_protocol_copy p junk') = server_config p \<and>
   client_connection (umcd_protocol_copy p junk') = None \<and>
   raw_request_size (umcd_protocol_copy p junk') = junk' \<and>
   request_body (umcd_protocol_copy p junk') = [] \<and>
   request (umcd_protocol_copy p junk') = wml_request None \<and>
   reply (umcd_protocol_copy p junk') = Wml_reply empty_config"
proof -
  have ctor: "dom (action_factory (umcd_protocol cfg junk)) = {''request_license'', ''request_umc_upload''}"
    by (auto simp add: umcd_protocol_def register_request_info_def default_members_def)
  have regs: "action_factory (umcd_protocol cfg junk) ''request_license'' =
           Some \<lparr>validator = Schema ''request_license'', action = Request_license_action\<rparr>"
      "action_factory (umcd_protocol cfg junk) ''request_umc_upload'' =
           Some \<lparr>validator = Schema ''request_umc_upload'', action = Request_umc_upload_action\<rparr>"
    by (simp_all add: umcd_protocol_def register_request_info_def default_members_def)
  have acc: "action_factory (object (accept env client p)) = action_factory p"
    by (simp add: accept_def handle_request_def)
  have ops: "action_factory (snd (handle_request env client p)) = action_factory p"
      "action_factory (snd (complete_request env ec p)) = action_factory p"
      "action_factory (snd (async_send_reply env p)) = action_factory p"
    by (simp_all add: handle_request_def complete_request_def async_send_reply_def)
  have own: "executed (fst (dispatch_request env ec p)) = [] \<and>
      action_factory (snd (dispatch_request env ec p)) = action_factory p \<or>
    (\<exists>(info::request_info) cfg'.
       executed (fst (dispatch_request env ec p)) = [action info] \<and>
       action_factory (snd (dispatch_request env ec p)) =
         action_factory (snd (snd (execute env (action info) (validated p cfg')))))"
    using factory_dispatch_own [of env ec p] by blast
  have kept: "keeps_registry env \<longrightarrow>
      action_factory (snd (dispatch_request env ec p)) = action_factory p \<and>
      action_factory (object (run env cs (accept env client p))) = action_factory p"
  proof
    assume k: "keeps_registry env"
    from factory_dispatch_request [OF k, of ec p] factory_run [OF k, of cs "accept env client p"] acc
    show "action_factory (snd (dispatch_request env ec p)) = action_factory p \<and>
      action_factory (object (run env cs (accept env client p))) = action_factory p"
      by simp
  qed
  have copy: "umcd_protocol_copy p junk' =
      \<lparr>server_config = server_config p, action_factory = action_factory p, client_connection = None,
       raw_request_size = junk', request_body = [], request = wml_request None,
       reply = Wml_reply empty_config\<rparr>"
    by (simp add: umcd_protocol_copy_def default_members_def)
  have rest: "action_factory (snd (read_request_body env ec p)) = action_factory p"
      "action_factory (snd (async_send_error env c p)) = action_factory p"
      "action_factory (snd (async_send_invalid_packet env w e p)) = action_factory p"
    using factory_read_request_body [of env ec p] factory_async_send_error [of env c p]
      factory_invalid_packet [of env w e p]
    by simp_all
  have copies: "action_factory (umcd_protocol_copy p junk') = action_factory p"
      "server_config (umcd_protocol_copy p junk') = server_config p"
      "client_connection (umcd_protocol_copy p junk') = None"
      "raw_request_size (umcd_protocol_copy p junk') = junk'"
      "request_body (umcd_protocol_copy p junk') = []"
      "request (umcd_protocol_copy p junk') = wml_request None"
      "reply (umcd_protocol_copy p junk') = Wml_reply empty_config"
    by (simp_all add: copy)
  show ?thesis
    by (intro conjI) (rule ctor regs ops rest own kept copies)+
qed

theorem registry_fixed_after_construction_witness:
  "keeps_registry sample_env \<and>
   dom (action_factory sample_protocol) = {''request_license'', ''request_umc_upload''} \<and>
   action_factory (object (run sample_env
      [Completion 0 ''0000000035'', Completion 0 ''[request_license][/request_license]'', Completion 0 []]
      (accept sample_env (Some 1) sample_protocol))) = action_factory sample_protocol \<and>
   client_connection (umcd_protocol_copy (sample_connected ''0000000035'' ''[request_license][/request_license]'')
      ''??????????'') = None \<and>
   request_body (umcd_protocol_copy (sample_connected ''0000000035'' ''[request_license][/request_license]'')
      ''??????????'') = []"
proof -
  let ?cs = "[Completion 0 ''0000000035'', Completion 0 ''[request_license][/request_license]'',
              Completion 0 []]"
  let ?p = "sample_connected ''0000000035'' ''[request_license][/request_license]''"
  note th = registry_fixed_after_construction [where env = sample_env and cfg = empty_config
      and junk = "''??????????''" and client = "Some 1" and p = sample_protocol and cs = ?cs]
  note th' = registry_fixed_after_construction [where p = ?p and junk' = "''??????????''"]
  from th have "keeps_registry sample_env \<longrightarrow>
      action_factory (object (run sample_env ?cs (accept sample_env (Some 1) sample_protocol))) =
        action_factory sample_protocol"
    by blast
  with sample_keeps_registry
  have run: "action_factory (object (run sample_env ?cs (accept sample_env (Some 1) sample_protocol))) =
        action_factory sample_protocol"
    by blast
  from th have ctor: "dom (action_factory sample_protocol) = {''request_license'', ''request_umc_upload''}"
    by (simp add: sample_protocol_def)
  from th' have copy: "client_connection (umcd_protocol_copy ?p ''??????????'') = None"
      "request_body (umcd_protocol_copy ?p ''??????????'') = []"
    by blast+
  from sample_keeps_registry ctor run copy show ?thesis by (intro conjI)
qed

end
